theory Spec2Isabelle
  imports Complex_Main
begin

section \<open>Loss scale managers of mindspore/train/loss_scale_manager.py\<close>

text \<open>
  The two concrete managers of the source, \<open>FixedLossScaleManager\<close> and
  \<open>DynamicLossScaleManager\<close>, are embedded as records with explicit state passing.
  Python's numbers for the loss scale and the scale factor (ints or floats) are read as
  exact rationals; the counters are Python's unbounded ints. An exception is a value
  \<open>Inl e\<close>; a method that raises after it has assigned to fields returns the error
  together with the object as the assignments left it.
\<close>

subsection \<open>Errors and update cells\<close>

datatype error =
    ValueError string
  | RuntimeError int
  | ZeroDivisionError

text \<open>
  The cells \<open>nn.FixedLossScaleUpdateCell\<close> and \<open>nn.DynamicLossScaleUpdateCell\<close> belong to
  the network library; the managers only construct them, so a cell is the constructor
  applied to the arguments the manager passes.
\<close>

datatype update_cell =
    FixedLossScaleUpdateCell rat
  | DynamicLossScaleUpdateCell rat rat int

subsection \<open>FixedLossScaleManager\<close>

text \<open>
  The fields \<open>_loss_scale\<close> and \<open>_drop_overflow_update\<close> of the source; the leading
  underscore is written \<open>priv_\<close>.
\<close>

record fixed_manager =
  priv_loss_scale :: rat
  priv_drop_overflow_update :: bool

definition FixedLossScaleManager_init :: "rat \<Rightarrow> bool \<Rightarrow> error + fixed_manager" where
  "FixedLossScaleManager_init loss_scale drop_overflow_update =
     (if loss_scale < 1 then Inl (ValueError ''loss_scale'')
      else Inr \<lparr>priv_loss_scale = loss_scale,
                priv_drop_overflow_update = drop_overflow_update\<rparr>)"

definition FixedLossScaleManager_get_loss_scale :: "fixed_manager \<Rightarrow> rat" where
  "FixedLossScaleManager_get_loss_scale m = priv_loss_scale m"

definition FixedLossScaleManager_get_drop_overflow_update :: "fixed_manager \<Rightarrow> bool" where
  "FixedLossScaleManager_get_drop_overflow_update m = priv_drop_overflow_update m"

text \<open>The body of the method is its docstring only: it returns and assigns nothing.\<close>

definition FixedLossScaleManager_update_loss_scale ::
  "bool \<Rightarrow> fixed_manager \<Rightarrow> (error + unit) \<times> fixed_manager" where
  "FixedLossScaleManager_update_loss_scale overflow m = (Inr (), m)"

definition FixedLossScaleManager_get_update_cell :: "fixed_manager \<Rightarrow> update_cell option" where
  "FixedLossScaleManager_get_update_cell m =
     (if \<not> priv_drop_overflow_update m then None
      else Some (FixedLossScaleUpdateCell (priv_loss_scale m)))"

text \<open>
  A training loop calls \<open>update_loss_scale\<close> once per step; the outcomes of the calls
  are collected in order, next to the object after the last call.
\<close>

fun fixed_run :: "bool list \<Rightarrow> fixed_manager \<Rightarrow> (error + unit) list \<times> fixed_manager" where
  "fixed_run [] m = ([], m)"
| "fixed_run (overflow # rest) m =
     (case FixedLossScaleManager_update_loss_scale overflow m of
        (r, m') \<Rightarrow> (case fixed_run rest m' of (rs, m'') \<Rightarrow> (r # rs, m'')))"

subsection \<open>DynamicLossScaleManager\<close>

record dynamic_manager =
  loss_scale :: rat
  scale_window :: int
  scale_factor :: rat
  increase_ratio :: rat
  decrease_ratio :: rat
  cur_iter :: int
  last_overflow_iter :: int
  bad_step_max :: int
  bad_step :: int

text \<open>
  Modelled from the spec: \<open>validator.check_positive_int\<close> of \<open>mindspore/_checkparam.py\<close>
  is not part of the sources at hand. The specification says that a scale window below 1
  is rejected with the configuration error at construction; the argument is returned
  otherwise.
\<close>

definition check_positive_int :: "int \<Rightarrow> string \<Rightarrow> error + int" where
  "check_positive_int arg_value arg_name =
     (if arg_value < 1 then Inl (ValueError arg_name) else Inr arg_value)"

definition DynamicLossScaleManager_init :: "rat \<Rightarrow> rat \<Rightarrow> int \<Rightarrow> error + dynamic_manager" where
  "DynamicLossScaleManager_init init_loss_scale scale_factor' scale_window' =
     (if init_loss_scale < 1 then Inl (ValueError ''init_loss_scale'')
      else (case check_positive_int scale_window' ''scale_window'' of
              Inl e \<Rightarrow> Inl e
            | Inr _ \<Rightarrow>
                if scale_factor' \<le> 0 then Inl (ValueError ''scale_factor'')
                else Inr \<lparr>loss_scale = init_loss_scale,
                          scale_window = scale_window',
                          scale_factor = scale_factor',
                          increase_ratio = scale_factor',
                          decrease_ratio = 1 / scale_factor',
                          cur_iter = 1,
                          last_overflow_iter = 0,
                          bad_step_max = 1000,
                          bad_step = 0\<rparr>))"


text \<open>Python's \<open>max(a, b)\<close> keeps its first argument unless the second is greater.\<close>

definition py_max :: "rat \<Rightarrow> rat \<Rightarrow> rat" where
  "py_max a b = (if a < b then b else a)"

text \<open>
  The method assigns to the fields in place, so the object is returned in both outcomes.
  The modulo of the growth test raises on a zero window before anything is assigned in
  that branch; the overflow ceiling is tested after the branch has assigned, and the step
  counter is advanced only when that test lets the call through.
\<close>

definition DynamicLossScaleManager_update_loss_scale ::
  "bool \<Rightarrow> dynamic_manager \<Rightarrow> (error + unit) \<times> dynamic_manager" where
  "DynamicLossScaleManager_update_loss_scale overflow m =
     (if \<not> overflow \<and> scale_window m = 0 then (Inl ZeroDivisionError, m)
      else
        let m1 =
          (if overflow then
             m\<lparr>loss_scale := py_max (loss_scale m * decrease_ratio m) 1,
               last_overflow_iter := cur_iter m,
               bad_step := bad_step m + 1\<rparr>
           else
             (if (cur_iter m - last_overflow_iter m) mod scale_window m = 0
              then m\<lparr>loss_scale := loss_scale m * increase_ratio m\<rparr>
              else m)\<lparr>bad_step := 0\<rparr>)
        in
          if bad_step m1 > bad_step_max m1 then (Inl (RuntimeError (bad_step m1)), m1)
          else (Inr (), m1\<lparr>cur_iter := cur_iter m1 + 1\<rparr>))"

definition DynamicLossScaleManager_get_drop_overflow_update :: "dynamic_manager \<Rightarrow> bool" where
  "DynamicLossScaleManager_get_drop_overflow_update m = True"

definition DynamicLossScaleManager_get_update_cell :: "dynamic_manager \<Rightarrow> update_cell" where
  "DynamicLossScaleManager_get_update_cell m =
     DynamicLossScaleUpdateCell (loss_scale m) (scale_factor m) (scale_window m)"

text \<open>
  The object after a sequence of calls. An exception leaves the object in the caller's
  hands, so the sequence goes on from the object the failed call left behind.
\<close>

fun dynamic_run :: "bool list \<Rightarrow> dynamic_manager \<Rightarrow> dynamic_manager" where
  "dynamic_run [] m = m"
| "dynamic_run (overflow # rest) m =
     dynamic_run rest (snd (DynamicLossScaleManager_update_loss_scale overflow m))"

text \<open>
  The objects a program can hold: a constructed one, and whatever a call makes of one,
  whether the call returned or raised.
\<close>

inductive reachable :: "dynamic_manager \<Rightarrow> bool" where
  constructed:
    "DynamicLossScaleManager_init i f w = Inr m \<Longrightarrow> reachable m"
| updated:
    "reachable m \<Longrightarrow> reachable (snd (DynamicLossScaleManager_update_loss_scale overflow m))"

text \<open>The objects reached through calls that all returned normally.\<close>

inductive reachable_normally :: "dynamic_manager \<Rightarrow> bool" where
  constructed_normally:
    "DynamicLossScaleManager_init i f w = Inr m \<Longrightarrow> reachable_normally m"
| updated_normally:
    "reachable_normally m \<Longrightarrow>
     DynamicLossScaleManager_update_loss_scale overflow m = (Inr (), m') \<Longrightarrow>
     reachable_normally m'"

text \<open>The configuration that every constructed object starts with and that no call changes.\<close>

definition configured :: "dynamic_manager \<Rightarrow> bool" where
  "configured m \<longleftrightarrow>
     1 \<le> scale_window m \<and> 0 < scale_factor m \<and>
     increase_ratio m = scale_factor m \<and> decrease_ratio m = 1 / scale_factor m \<and>
     bad_step_max m = 1000 \<and> 0 \<le> bad_step m"

section \<open>Construction\<close>

lemma fixed_init_cases:
  "FixedLossScaleManager_init s d =
     (if s < 1 then Inl (ValueError ''loss_scale'')
      else Inr \<lparr>priv_loss_scale = s, priv_drop_overflow_update = d\<rparr>)"
  by (simp add: FixedLossScaleManager_init_def)

lemma dynamic_init_Inr:
  assumes "DynamicLossScaleManager_init i f w = Inr m"
  shows "1 \<le> i \<and> 0 < f \<and> 1 \<le> w \<and>
         m = \<lparr>loss_scale = i, scale_window = w, scale_factor = f, increase_ratio = f,
              decrease_ratio = 1 / f, cur_iter = 1, last_overflow_iter = 0,
              bad_step_max = 1000, bad_step = 0\<rparr>"
  using assms
  by (auto simp: DynamicLossScaleManager_init_def check_positive_int_def
           split: if_splits sum.splits)

lemma dynamic_init_ok:
  assumes "1 \<le> i" "0 < f" "1 \<le> w"
  shows "DynamicLossScaleManager_init i f w =
         Inr \<lparr>loss_scale = i, scale_window = w, scale_factor = f, increase_ratio = f,
              decrease_ratio = 1 / f, cur_iter = 1, last_overflow_iter = 0,
              bad_step_max = 1000, bad_step = 0\<rparr>"
  using assms
  by (simp add: DynamicLossScaleManager_init_def check_positive_int_def)

lemma dynamic_init_bad:
  assumes "i < 1 \<or> f \<le> 0 \<or> w < 1"
  shows "\<exists>name. DynamicLossScaleManager_init i f w = Inl (ValueError name)"
  using assms
  by (auto simp: DynamicLossScaleManager_init_def check_positive_int_def)

text \<open>
  C7. Construction raises the configuration error (Python's \<open>ValueError\<close>) exactly when
  the scale is below 1 (both managers), the scale factor is not positive, or the scale
  window is below 1 (dynamic manager); every other configuration yields an object. No
  object exists after the error, so no step can run on it.
\<close>

theorem construction_validation:
  "((\<exists>name. FixedLossScaleManager_init s d = Inl (ValueError name)) = (s < 1)) \<and>
   ((\<exists>m. FixedLossScaleManager_init s d = Inr m) = (1 \<le> s)) \<and>
   ((\<exists>name. DynamicLossScaleManager_init i f w = Inl (ValueError name))
      = (i < 1 \<or> f \<le> 0 \<or> w < 1)) \<and>
   ((\<exists>m. DynamicLossScaleManager_init i f w = Inr m) = (1 \<le> i \<and> 0 < f \<and> 1 \<le> w)) \<and>
   (\<exists>name. DynamicLossScaleManager_init i 0 w = Inl (ValueError name))"
proof -
  have a: "(\<exists>name. FixedLossScaleManager_init s d = Inl (ValueError name)) = (s < 1)"
    by (simp add: fixed_init_cases)
  have b: "(\<exists>m. FixedLossScaleManager_init s d = Inr m) = (1 \<le> s)"
    by (simp add: fixed_init_cases not_less)
  have c: "(\<exists>name. DynamicLossScaleManager_init i f w = Inl (ValueError name))
             = (i < 1 \<or> f \<le> 0 \<or> w < 1)"
  proof
    assume "\<exists>name. DynamicLossScaleManager_init i f w = Inl (ValueError name)"
    then show "i < 1 \<or> f \<le> 0 \<or> w < 1"
      using dynamic_init_ok [of i f w] by fastforce
  next
    assume "i < 1 \<or> f \<le> 0 \<or> w < 1"
    then show "\<exists>name. DynamicLossScaleManager_init i f w = Inl (ValueError name)"
      by (rule dynamic_init_bad)
  qed
  have d: "(\<exists>m. DynamicLossScaleManager_init i f w = Inr m) = (1 \<le> i \<and> 0 < f \<and> 1 \<le> w)"
    using dynamic_init_ok [of i f w] dynamic_init_Inr [of i f w] by blast
  have e: "\<exists>name. DynamicLossScaleManager_init i 0 w = Inl (ValueError name)"
    by (rule dynamic_init_bad) simp
  from a b c d e show ?thesis by blast
qed

theorem construction_validation_witness:
  "FixedLossScaleManager_init (1 / 2) True = Inl (ValueError ''loss_scale'') \<and>
   (\<exists>m. FixedLossScaleManager_init 128 True = Inr m) \<and>
   (\<exists>m. DynamicLossScaleManager_init 1024 2 3 = Inr m) \<and>
   (\<exists>name. DynamicLossScaleManager_init 1024 0 3 = Inl (ValueError name)) \<and>
   (\<exists>name. DynamicLossScaleManager_init 1024 2 0 = Inl (ValueError name))"
  using construction_validation [of "1 / 2" True 1024 2 3]
        construction_validation [of 128 True 1024 2 0]
        construction_validation [of 128 True 1024 0 3]
  by (simp add: fixed_init_cases)

section \<open>The fixed manager\<close>

lemma fixed_run_noop:
  "fixed_run bs m = (replicate (length bs) (Inr ()), m)"
  by (induction bs arbitrary: m) (simp_all add: FixedLossScaleManager_update_loss_scale_def)

text \<open>
  C8. On a fixed manager every call of \<open>update_loss_scale\<close> returns normally and leaves
  the object as it was, for every sequence of overflow flags; after the sequence
  \<open>get_loss_scale\<close> is the configured scale and \<open>get_drop_overflow_update\<close> the
  configured flag.
\<close>

theorem fixed_update_is_noop:
  assumes "FixedLossScaleManager_init s d = Inr m"
  shows "FixedLossScaleManager_update_loss_scale overflow m = (Inr (), m) \<and>
         fst (fixed_run bs m) = replicate (length bs) (Inr ()) \<and>
         snd (fixed_run bs m) = m \<and>
         FixedLossScaleManager_get_loss_scale (snd (fixed_run bs m)) = s \<and>
         FixedLossScaleManager_get_drop_overflow_update (snd (fixed_run bs m)) = d"
proof -
  from assms have m: "m = \<lparr>priv_loss_scale = s, priv_drop_overflow_update = d\<rparr>"
    by (simp add: fixed_init_cases split: if_splits)
  show ?thesis
    by (simp add: fixed_run_noop m FixedLossScaleManager_update_loss_scale_def
        FixedLossScaleManager_get_loss_scale_def
        FixedLossScaleManager_get_drop_overflow_update_def)
qed

theorem fixed_update_is_noop_witness:
  "FixedLossScaleManager_init 128 True
     = Inr \<lparr>priv_loss_scale = 128, priv_drop_overflow_update = True\<rparr> \<and>
   fst (fixed_run [True, False, True]
          \<lparr>priv_loss_scale = 128, priv_drop_overflow_update = True\<rparr>)
     = [Inr (), Inr (), Inr ()] \<and>
   FixedLossScaleManager_get_loss_scale
     (snd (fixed_run [True, False, True]
             \<lparr>priv_loss_scale = 128, priv_drop_overflow_update = True\<rparr>)) = 128 \<and>
   FixedLossScaleManager_get_drop_overflow_update
     (snd (fixed_run [True, False, True]
             \<lparr>priv_loss_scale = 128, priv_drop_overflow_update = True\<rparr>)) = True"
proof -
  have h: "FixedLossScaleManager_init 128 True
             = Inr \<lparr>priv_loss_scale = 128, priv_drop_overflow_update = True\<rparr>"
    by (simp add: FixedLossScaleManager_init_def)
  show ?thesis
    using h fixed_update_is_noop [OF h, of True "[True, False, True]"]
    by (simp add: FixedLossScaleManager_update_loss_scale_def)
qed

text \<open>
  C9. On a fixed manager \<open>get_update_cell\<close> is \<open>None\<close> exactly when the manager was
  configured with \<open>drop_overflow_update = False\<close>, whatever overflow flags have been
  reported since; with \<open>drop_overflow_update = True\<close> it is the fixed update cell built
  from the configured scale.
\<close>

theorem fixed_update_cell:
  assumes "FixedLossScaleManager_init s d = Inr m"
  shows "(FixedLossScaleManager_get_update_cell (snd (fixed_run bs m)) = None) = (\<not> d) \<and>
         (FixedLossScaleManager_get_update_cell (snd (fixed_run bs m))
            = Some (FixedLossScaleUpdateCell s)) = d"
proof -
  from assms have m: "m = \<lparr>priv_loss_scale = s, priv_drop_overflow_update = d\<rparr>"
    by (simp add: fixed_init_cases split: if_splits)
  show ?thesis
    by (simp add: fixed_run_noop m FixedLossScaleManager_get_update_cell_def)
qed

theorem fixed_update_cell_witness:
  "FixedLossScaleManager_init 128 True
     = Inr \<lparr>priv_loss_scale = 128, priv_drop_overflow_update = True\<rparr> \<and>
   FixedLossScaleManager_get_update_cell
     (snd (fixed_run [True] \<lparr>priv_loss_scale = 128, priv_drop_overflow_update = True\<rparr>))
     = Some (FixedLossScaleUpdateCell 128) \<and>
   FixedLossScaleManager_init 128 False
     = Inr \<lparr>priv_loss_scale = 128, priv_drop_overflow_update = False\<rparr> \<and>
   FixedLossScaleManager_get_update_cell
     (snd (fixed_run [True] \<lparr>priv_loss_scale = 128, priv_drop_overflow_update = False\<rparr>))
     = None"
proof -
  have h1: "FixedLossScaleManager_init 128 True
              = Inr \<lparr>priv_loss_scale = 128, priv_drop_overflow_update = True\<rparr>"
    by (simp add: FixedLossScaleManager_init_def)
  have h2: "FixedLossScaleManager_init 128 False
              = Inr \<lparr>priv_loss_scale = 128, priv_drop_overflow_update = False\<rparr>"
    by (simp add: FixedLossScaleManager_init_def)
  show ?thesis
    using h1 h2 fixed_update_cell [OF h1, of "[True]"] fixed_update_cell [OF h2, of "[True]"]
    by (simp add: FixedLossScaleManager_update_loss_scale_def)
qed

section \<open>The dynamic manager: one call\<close>



text \<open>The call with an overflow: it cannot divide by zero.\<close>

lemma update_overflow:
  "DynamicLossScaleManager_update_loss_scale True m =
     (if bad_step m + 1 > bad_step_max m
      then (Inl (RuntimeError (bad_step m + 1)),
            m\<lparr>loss_scale := py_max (loss_scale m * decrease_ratio m) 1,
              last_overflow_iter := cur_iter m,
              bad_step := bad_step m + 1\<rparr>)
      else (Inr (),
            m\<lparr>loss_scale := py_max (loss_scale m * decrease_ratio m) 1,
              last_overflow_iter := cur_iter m,
              bad_step := bad_step m + 1,
              cur_iter := cur_iter m + 1\<rparr>))"
  by (simp add: DynamicLossScaleManager_update_loss_scale_def Let_def)

text \<open>The call without an overflow, on an object whose window is not zero.\<close>

lemma update_no_overflow:
  assumes "scale_window m \<noteq> 0"
  shows "DynamicLossScaleManager_update_loss_scale False m =
     (if 0 > bad_step_max m
      then (Inl (RuntimeError 0),
            m\<lparr>loss_scale :=
                 (if (cur_iter m - last_overflow_iter m) mod scale_window m = 0
                  then loss_scale m * increase_ratio m else loss_scale m),
              bad_step := 0\<rparr>)
      else (Inr (),
            m\<lparr>loss_scale :=
                 (if (cur_iter m - last_overflow_iter m) mod scale_window m = 0
                  then loss_scale m * increase_ratio m else loss_scale m),
              bad_step := 0,
              cur_iter := cur_iter m + 1\<rparr>))"
  using assms by (simp add: DynamicLossScaleManager_update_loss_scale_def Let_def)

lemma configured_init:
  assumes "DynamicLossScaleManager_init i f w = Inr m"
  shows "configured m"
  using dynamic_init_Inr [OF assms] by (simp add: configured_def)

lemma configured_update:
  assumes "configured m"
  shows "configured (snd (DynamicLossScaleManager_update_loss_scale overflow m))"
proof (cases overflow)
  case True
  with assms show ?thesis by (simp add: update_overflow configured_def)
next
  case False
  from assms have "scale_window m \<noteq> 0" by (simp add: configured_def)
  with assms False show ?thesis by (simp add: update_no_overflow configured_def)
qed

lemma reachable_configured:
  assumes "reachable m"
  shows "configured m"
  using assms by (induction rule: reachable.induct) (simp_all add: configured_init configured_update)

lemma reachable_run:
  assumes "reachable m"
  shows "reachable (dynamic_run bs m)"
  using assms by (induction bs arbitrary: m) (simp_all add: reachable.updated)

section \<open>The floor of the scale\<close>






section \<open>The dynamic manager: sequences of calls\<close>







lemma update_normal_step:
  assumes "DynamicLossScaleManager_update_loss_scale overflow m = (Inr (), m')"
  shows "cur_iter m' = cur_iter m + 1 \<and>
         (last_overflow_iter m' = last_overflow_iter m \<or> last_overflow_iter m' = cur_iter m)"
  using assms
  by (auto simp: DynamicLossScaleManager_update_loss_scale_def Let_def split: if_splits)

lemma reachable_normally_order:
  assumes "reachable_normally m"
  shows "0 \<le> last_overflow_iter m \<and> last_overflow_iter m < cur_iter m"
  using assms
proof (induction rule: reachable_normally.induct)
  case (constructed_normally i f w m)
  from dynamic_init_Inr [OF this] show ?case by simp
next
  case (updated_normally m overflow m')
  from update_normal_step [OF updated_normally.hyps(2)] updated_normally.IH
  show ?case by auto
qed

section \<open>The claims about the dynamic manager\<close>







text \<open>
  C5 (as amended). A call of \<open>update_loss_scale\<close> that returns normally leaves
  \<open>cur_iter\<close> exactly 1 higher; a call that raises leaves \<open>cur_iter\<close> as it was, since
  the increment is the statement after the \<open>raise\<close>.
\<close>

theorem step_counter_advance:
  "cur_iter (snd (DynamicLossScaleManager_update_loss_scale overflow m))
     = (case fst (DynamicLossScaleManager_update_loss_scale overflow m) of
          Inr _ \<Rightarrow> cur_iter m + 1
        | Inl _ \<Rightarrow> cur_iter m)"
  by (simp add: DynamicLossScaleManager_update_loss_scale_def Let_def)

theorem step_counter_advance_witness:
  "fst (DynamicLossScaleManager_update_loss_scale False
     \<lparr>loss_scale = 1024, scale_window = 3, scale_factor = 2, increase_ratio = 2,
      decrease_ratio = 1 / 2, cur_iter = 1, last_overflow_iter = 0,
      bad_step_max = 1000, bad_step = 0\<rparr>) = Inr () \<and>
   cur_iter (snd (DynamicLossScaleManager_update_loss_scale False
     \<lparr>loss_scale = 1024, scale_window = 3, scale_factor = 2, increase_ratio = 2,
      decrease_ratio = 1 / 2, cur_iter = 1, last_overflow_iter = 0,
      bad_step_max = 1000, bad_step = 0\<rparr>)) = 2"
  using step_counter_advance [of False
     "\<lparr>loss_scale = 1024, scale_window = 3, scale_factor = 2, increase_ratio = 2,
      decrease_ratio = 1 / 2, cur_iter = 1, last_overflow_iter = 0,
      bad_step_max = 1000, bad_step = 0\<rparr>"]
  by (simp add: DynamicLossScaleManager_update_loss_scale_def)

text \<open>
  The call that raises does not advance the step counter: constructed with scale 2,
  factor 2 and window 1 and told of 1000 overflows, the object is at step 1001 with
  \<open>bad_step = 1000\<close>; the next overflow call raises and the object is still at step 1001.
\<close>

theorem step_counter_advance_counterexample:
  "DynamicLossScaleManager_init 2 2 1 = Inr
     \<lparr>loss_scale = 2, scale_window = 1, scale_factor = 2, increase_ratio = 2,
      decrease_ratio = 1 / 2, cur_iter = 1, last_overflow_iter = 0,
      bad_step_max = 1000, bad_step = 0\<rparr> \<and>
   dynamic_run (replicate 1000 True)
     \<lparr>loss_scale = 2, scale_window = 1, scale_factor = 2, increase_ratio = 2,
      decrease_ratio = 1 / 2, cur_iter = 1, last_overflow_iter = 0,
      bad_step_max = 1000, bad_step = 0\<rparr>
   = \<lparr>loss_scale = 1, scale_window = 1, scale_factor = 2, increase_ratio = 2,
      decrease_ratio = 1 / 2, cur_iter = 1001, last_overflow_iter = 1000,
      bad_step_max = 1000, bad_step = 1000\<rparr> \<and>
   DynamicLossScaleManager_update_loss_scale True
     \<lparr>loss_scale = 1, scale_window = 1, scale_factor = 2, increase_ratio = 2,
      decrease_ratio = 1 / 2, cur_iter = 1001, last_overflow_iter = 1000,
      bad_step_max = 1000, bad_step = 1000\<rparr>
   = (Inl (RuntimeError 1001),
      \<lparr>loss_scale = 1, scale_window = 1, scale_factor = 2, increase_ratio = 2,
       decrease_ratio = 1 / 2, cur_iter = 1001, last_overflow_iter = 1001,
       bad_step_max = 1000, bad_step = 1001\<rparr>) \<and>
   cur_iter (snd (DynamicLossScaleManager_update_loss_scale True
     \<lparr>loss_scale = 1, scale_window = 1, scale_factor = 2, increase_ratio = 2,
      decrease_ratio = 1 / 2, cur_iter = 1001, last_overflow_iter = 1000,
      bad_step_max = 1000, bad_step = 1000\<rparr>))
   \<noteq> cur_iter
     \<lparr>loss_scale = 1, scale_window = 1, scale_factor = 2, increase_ratio = 2,
      decrease_ratio = 1 / 2, cur_iter = 1001, last_overflow_iter = 1000,
      bad_step_max = 1000, bad_step = 1000\<rparr> + 1"
proof -
  have a: "DynamicLossScaleManager_init 2 2 1 = Inr
     \<lparr>loss_scale = 2, scale_window = 1, scale_factor = 2, increase_ratio = 2,
      decrease_ratio = 1 / 2, cur_iter = 1, last_overflow_iter = 0,
      bad_step_max = 1000, bad_step = 0\<rparr>"
    by (simp add: DynamicLossScaleManager_init_def check_positive_int_def)
  have b: "dynamic_run (replicate 1000 True)
     \<lparr>loss_scale = 2, scale_window = 1, scale_factor = 2, increase_ratio = 2,
      decrease_ratio = 1 / 2, cur_iter = 1, last_overflow_iter = 0,
      bad_step_max = 1000, bad_step = 0\<rparr>
   = \<lparr>loss_scale = 1, scale_window = 1, scale_factor = 2, increase_ratio = 2,
      decrease_ratio = 1 / 2, cur_iter = 1001, last_overflow_iter = 1000,
      bad_step_max = 1000, bad_step = 1000\<rparr>"
    by code_simp
  have c: "DynamicLossScaleManager_update_loss_scale True
     \<lparr>loss_scale = 1, scale_window = 1, scale_factor = 2, increase_ratio = 2,
      decrease_ratio = 1 / 2, cur_iter = 1001, last_overflow_iter = 1000,
      bad_step_max = 1000, bad_step = 1000\<rparr>
   = (Inl (RuntimeError 1001),
      \<lparr>loss_scale = 1, scale_window = 1, scale_factor = 2, increase_ratio = 2,
       decrease_ratio = 1 / 2, cur_iter = 1001, last_overflow_iter = 1001,
       bad_step_max = 1000, bad_step = 1001\<rparr>)"
    by (simp add: update_overflow py_max_def)
  from a b c show ?thesis by simp
qed

text \<open>
  C6. On every reachable object, whatever \<open>bad_step\<close> has grown to, a call without
  overflow leaves \<open>bad_step\<close> at 0.
\<close>

theorem recovery_resets_count:
  assumes "reachable m"
  shows "bad_step (snd (DynamicLossScaleManager_update_loss_scale False m)) = 0"
proof -
  from reachable_configured [OF assms] have "scale_window m \<noteq> 0"
    by (simp add: configured_def)
  then show ?thesis by (simp add: update_no_overflow)
qed

theorem recovery_resets_count_witness:
  "reachable (dynamic_run [True, True]
     \<lparr>loss_scale = 1024, scale_window = 3, scale_factor = 2, increase_ratio = 2,
      decrease_ratio = 1 / 2, cur_iter = 1, last_overflow_iter = 0,
      bad_step_max = 1000, bad_step = 0\<rparr>) \<and>
   bad_step (dynamic_run [True, True]
     \<lparr>loss_scale = 1024, scale_window = 3, scale_factor = 2, increase_ratio = 2,
      decrease_ratio = 1 / 2, cur_iter = 1, last_overflow_iter = 0,
      bad_step_max = 1000, bad_step = 0\<rparr>) = 2 \<and>
   bad_step (snd (DynamicLossScaleManager_update_loss_scale False (dynamic_run [True, True]
     \<lparr>loss_scale = 1024, scale_window = 3, scale_factor = 2, increase_ratio = 2,
      decrease_ratio = 1 / 2, cur_iter = 1, last_overflow_iter = 0,
      bad_step_max = 1000, bad_step = 0\<rparr>))) = 0"
proof -
  have r: "reachable
     \<lparr>loss_scale = 1024, scale_window = 3, scale_factor = 2, increase_ratio = 2,
      decrease_ratio = 1 / 2, cur_iter = 1, last_overflow_iter = 0,
      bad_step_max = 1000, bad_step = 0\<rparr>"
    by (rule reachable.constructed [of 1024 2 3])
       (simp add: DynamicLossScaleManager_init_def check_positive_int_def)
  note r2 = reachable_run [OF r, of "[True, True]"]
  have b: "bad_step (dynamic_run [True, True]
     \<lparr>loss_scale = 1024, scale_window = 3, scale_factor = 2, increase_ratio = 2,
      decrease_ratio = 1 / 2, cur_iter = 1, last_overflow_iter = 0,
      bad_step_max = 1000, bad_step = 0\<rparr>) = 2"
    by (simp add: update_overflow)
  from recovery_resets_count [OF r2] r2 b show ?thesis by blast
qed

text \<open>
  C10. In every object reached from construction through calls that returned normally,
  \<open>0 \<le> last_overflow_iter < cur_iter\<close>; and a further call that returns normally
  raises \<open>cur_iter\<close> by exactly 1 and does not lower \<open>last_overflow_iter\<close>.
\<close>

theorem step_counters_ordered:
  assumes "reachable_normally m"
  shows "0 \<le> last_overflow_iter m \<and> last_overflow_iter m < cur_iter m \<and>
         (\<forall>overflow m'. DynamicLossScaleManager_update_loss_scale overflow m = (Inr (), m') \<longrightarrow>
            cur_iter m' = cur_iter m + 1 \<and> last_overflow_iter m \<le> last_overflow_iter m')"
proof -
  note ord = reachable_normally_order [OF assms]
  have "cur_iter m' = cur_iter m + 1 \<and> last_overflow_iter m \<le> last_overflow_iter m'"
    if "DynamicLossScaleManager_update_loss_scale overflow m = (Inr (), m')" for overflow m'
    using update_normal_step [OF that] ord by auto
  with ord show ?thesis by blast
qed

theorem step_counters_ordered_witness:
  "reachable_normally
     \<lparr>loss_scale = 1024, scale_window = 3, scale_factor = 2, increase_ratio = 2,
      decrease_ratio = 1 / 2, cur_iter = 1, last_overflow_iter = 0,
      bad_step_max = 1000, bad_step = 0\<rparr> \<and>
   DynamicLossScaleManager_update_loss_scale True
     \<lparr>loss_scale = 1024, scale_window = 3, scale_factor = 2, increase_ratio = 2,
      decrease_ratio = 1 / 2, cur_iter = 1, last_overflow_iter = 0,
      bad_step_max = 1000, bad_step = 0\<rparr>
   = (Inr (),
      \<lparr>loss_scale = 512, scale_window = 3, scale_factor = 2, increase_ratio = 2,
       decrease_ratio = 1 / 2, cur_iter = 2, last_overflow_iter = 1,
       bad_step_max = 1000, bad_step = 1\<rparr>) \<and>
   cur_iter
      \<lparr>loss_scale = 512, scale_window = 3, scale_factor = 2, increase_ratio = 2,
       decrease_ratio = 1 / 2, cur_iter = 2, last_overflow_iter = 1,
       bad_step_max = 1000, bad_step = 1\<rparr>
     = cur_iter
     \<lparr>loss_scale = 1024, scale_window = 3, scale_factor = 2, increase_ratio = 2,
      decrease_ratio = 1 / 2, cur_iter = 1, last_overflow_iter = 0,
      bad_step_max = 1000, bad_step = 0\<rparr> + 1 \<and>
   last_overflow_iter
     \<lparr>loss_scale = 1024, scale_window = 3, scale_factor = 2, increase_ratio = 2,
      decrease_ratio = 1 / 2, cur_iter = 1, last_overflow_iter = 0,
      bad_step_max = 1000, bad_step = 0\<rparr>
     < cur_iter
     \<lparr>loss_scale = 1024, scale_window = 3, scale_factor = 2, increase_ratio = 2,
      decrease_ratio = 1 / 2, cur_iter = 1, last_overflow_iter = 0,
      bad_step_max = 1000, bad_step = 0\<rparr>"
proof -
  have r: "reachable_normally
     \<lparr>loss_scale = 1024, scale_window = 3, scale_factor = 2, increase_ratio = 2,
      decrease_ratio = 1 / 2, cur_iter = 1, last_overflow_iter = 0,
      bad_step_max = 1000, bad_step = 0\<rparr>"
    by (rule reachable_normally.constructed_normally [of 1024 2 3])
       (simp add: DynamicLossScaleManager_init_def check_positive_int_def)
  have u: "DynamicLossScaleManager_update_loss_scale True
     \<lparr>loss_scale = 1024, scale_window = 3, scale_factor = 2, increase_ratio = 2,
      decrease_ratio = 1 / 2, cur_iter = 1, last_overflow_iter = 0,
      bad_step_max = 1000, bad_step = 0\<rparr>
   = (Inr (),
      \<lparr>loss_scale = 512, scale_window = 3, scale_factor = 2, increase_ratio = 2,
       decrease_ratio = 1 / 2, cur_iter = 2, last_overflow_iter = 1,
       bad_step_max = 1000, bad_step = 1\<rparr>)"
    by (simp add: update_overflow py_max_def)
  from step_counters_ordered [OF r] r u show ?thesis by simp
qed

end
